theory Spec2Isabelle
  imports Main
begin

section \<open>The generation session of frontend/src/App.tsx\<close>

text \<open>
  The component \<open>App\<close> keeps the session in React state hooks and one mutable ref
  (\<open>wsRef\<close>). The model is explicit state passing: one record holds every hook and the
  ref, and each handler of the component is a function from the record to the record
  after the handler's setters have been applied. Setter calls of one handler are
  batched by React and take effect in program order, so a handler is one step.

  The two \<open>async\<close> handlers (\<open>doUpdate\<close>, \<open>instructionGenerate\<close>) await
  \<open>takeScreenshot\<close> and then go on with the values captured when they were called; the
  picture returned by the browser is an input of the model (\<open>shot\<close>), and the handler is
  one step on the state it was called in.
\<close>

subsection \<open>Data\<close>

text \<open>\<open>AppState\<close> is imported from \<open>./types\<close>; these are the members the component uses.\<close>

datatype AppState = INITIAL | CODING | CODE_READY | INSTRUCTION_GENERATING

text \<open>
  \<open>EditorTheme\<close> is imported from \<open>./types\<close> as well; the component names only
  \<open>COBALT\<close>, every other member is carried by its name.
\<close>

datatype EditorTheme = COBALT | OTHER_THEME string

text \<open>The persisted settings, with the keys of the default object (\<open>null\<close> is \<open>None\<close>).\<close>

record Settings =
  openAiApiKey :: "string option"
  screenshotOneApiKey :: "string option"
  isImageGenerationEnabled :: bool
  editorTheme :: EditorTheme
  isTermOfServiceAccepted :: bool

text \<open>
  The parameter objects handed to \<open>doGenerateCode\<close> and \<open>doGenerateInstruction\<close>, with
  the keys of the object literals in the component. \<open>referenceImages[0]\<close> of an empty
  array is \<open>undefined\<close> in JavaScript, and \<open>resultImage\<close> and \<open>history\<close> are left
  out of some literals: an absent or undefined key is \<open>None\<close>.
\<close>

datatype GenerationParams =
    CodeGenerationParams
      (generationType: string)
      (image_param: "string option")
      (resultImage: "string option")
      (history_param: "string list option")
  | InstructionGenerationParams
      (image_param: "string option")
      (resultImage: "string option")

text \<open>
  \<open>{ ...params, ...settings }\<close>: the keys of the parameter objects and the keys of
  \<open>Settings\<close> are disjoint, so the merged object is the two side by side.
\<close>

record UpdatedParams =
  params :: GenerationParams
  ambient :: Settings

datatype ReadyState = OPEN | CLOSED nat

record WebSocket =
  payload :: UpdatedParams
  readyState :: ReadyState

record App =
  appState :: AppState
  generatedCode :: string
  referenceImages :: "string list"
  executionConsole :: "string list"
  updateInstruction :: string
  history :: "string list"
  settings :: Settings
  shouldIncludeResultImage :: bool
  mistakesNum :: int
  wsRef :: "WebSocket option"

text \<open>
  What the component imports and does not define: the close code of \<open>./constants\<close> and
  \<open>calculateMistakesNum\<close> of \<open>./lib/utils\<close>. Both are parameters of the model.
  (\<open>handleInstructions\<close> of \<open>./lib/utils\<close> gets the finished instruction and returns
  nothing to the component; it has no part in the session record.)
\<close>

record Env =
  USER_CLOSE_WEB_SOCKET_CODE :: nat
  calculateMistakesNum :: "string \<Rightarrow> int"

text \<open>The values of the \<open>useState\<close> and \<open>useRef\<close> calls; the settings come in persisted.\<close>

definition initial :: "Settings \<Rightarrow> App" where
  "initial cfg =
     \<lparr> appState = INITIAL, generatedCode = [], referenceImages = [],
       executionConsole = [], updateInstruction = [], history = [],
       settings = cfg, shouldIncludeResultImage = False, mistakesNum = 0,
       wsRef = None \<rparr>"

text \<open>The default object passed to \<open>usePersistedState\<close>.\<close>

definition defaultSettings :: Settings where
  "defaultSettings =
     \<lparr> openAiApiKey = None, screenshotOneApiKey = None,
       isImageGenerationEnabled = True, editorTheme = COBALT,
       isTermOfServiceAccepted = False \<rparr>"

text \<open>\<open>xs[0]\<close> in JavaScript: \<open>undefined\<close> on the empty array.\<close>

fun first_image :: "string list \<Rightarrow> string option" where
  "first_image [] = None"
| "first_image (x # xs) = Some x"

subsection \<open>The channel\<close>

text \<open>
  Modelled from the spec: \<open>generateCode\<close> and \<open>generateInstruction\<close> of
  \<open>./generateCode\<close> are not in the component. The spec's Channel Adapter opens one
  connection for the request it is given and the session holds the handle; here the
  handle is stored in \<open>wsRef\<close>, open, with the merged parameters as the request sent.
  The record of a handle says what the component did to it: whether the transport has
  ended the connection by itself (which is when it reports completion) is not the
  component's to see, and is not recorded.
\<close>

definition open_channel :: "UpdatedParams \<Rightarrow> App \<Rightarrow> App" where
  "open_channel p s = s\<lparr>wsRef := Some \<lparr>payload = p, readyState = OPEN\<rparr>\<rparr>"

text \<open>
  Modelled from the spec: \<open>WebSocket.close\<close> belongs to the browser. The spec's
  \<open>cancel\<close> closes an open handle and is a no-op on a handle that is closed already.
\<close>

definition close_ws :: "nat \<Rightarrow> WebSocket \<Rightarrow> WebSocket" where
  "close_ws code w =
     (case readyState w of
        OPEN \<Rightarrow> w\<lparr>readyState := CLOSED code\<rparr>
      | CLOSED c \<Rightarrow> w)"

text \<open>
  The four callbacks the component hands to the channel, as the event that makes the
  channel call them: the third argument (\<open>Token\<close>), the fourth (\<open>Replace\<close>), the fifth
  (\<open>Log\<close>) and the sixth (\<open>Done\<close>).
\<close>

datatype StreamEvent = Token string | Replace string | Log string | Done

text \<open>The callbacks of \<open>doGenerateCode\<close>.\<close>

fun codeEvent :: "StreamEvent \<Rightarrow> App \<Rightarrow> App" where
  "codeEvent (Token token) s = s\<lparr>generatedCode := generatedCode s @ token\<rparr>"
| "codeEvent (Replace code) s = s\<lparr>generatedCode := code\<rparr>"
| "codeEvent (Log line) s = s\<lparr>executionConsole := executionConsole s @ [line]\<rparr>"
| "codeEvent Done s = s\<lparr>appState := CODE_READY\<rparr>"

text \<open>The callbacks of \<open>doGenerateInstruction\<close>.\<close>

fun instructionEvent :: "Env \<Rightarrow> StreamEvent \<Rightarrow> App \<Rightarrow> App" where
  "instructionEvent env (Token token) s =
     s\<lparr>updateInstruction := updateInstruction s @ token\<rparr>"
| "instructionEvent env (Replace code) s = s\<lparr>updateInstruction := code\<rparr>"
| "instructionEvent env (Log line) s =
     s\<lparr>executionConsole := executionConsole s @ [line]\<rparr>"
| "instructionEvent env Done s =
     s\<lparr>appState := CODE_READY,
       mistakesNum := calculateMistakesNum env (updateInstruction s)\<rparr>"

subsection \<open>The handlers\<close>

definition reset :: "App \<Rightarrow> App" where
  "reset s =
     s\<lparr>appState := INITIAL, generatedCode := [], referenceImages := [],
       executionConsole := [], history := []\<rparr>"

text \<open>\<open>wsRef.current?.close?.(...)\<close>: nothing to close while the ref is \<open>null\<close>.\<close>

definition stop :: "Env \<Rightarrow> App \<Rightarrow> App" where
  "stop env s =
     s\<lparr>wsRef := map_option (close_ws (USER_CLOSE_WEB_SOCKET_CODE env)) (wsRef s),
       appState := CODE_READY\<rparr>"

definition doGenerateCode :: "GenerationParams \<Rightarrow> App \<Rightarrow> App" where
  "doGenerateCode p s =
     open_channel \<lparr>params = p, ambient = settings s\<rparr>
       (s\<lparr>executionConsole := [], appState := CODING\<rparr>)"

definition doGenerateInstruction :: "GenerationParams \<Rightarrow> App \<Rightarrow> App" where
  "doGenerateInstruction p s =
     open_channel \<lparr>params = p, ambient = settings s\<rparr>
       (s\<lparr>appState := INSTRUCTION_GENERATING, updateInstruction := [],
          mistakesNum := 0\<rparr>)"

text \<open>The argument shadows the state of the same name.\<close>

definition doCreate :: "string list \<Rightarrow> App \<Rightarrow> App" where
  "doCreate imgs s =
     (let s1 = s\<lparr>referenceImages := imgs\<rparr> in
      if length imgs > 0
      then doGenerateCode (CodeGenerationParams ''create'' (first_image imgs) None None) s1
      else s1)"

definition doUpdate :: "string \<Rightarrow> App \<Rightarrow> App" where
  "doUpdate shot s =
     (let updatedHistory = history s @ [generatedCode s, updateInstruction s];
          s1 = (if shouldIncludeResultImage s
                then doGenerateCode
                       (CodeGenerationParams ''update'' (first_image (referenceImages s))
                          (Some shot) (Some updatedHistory)) s
                else doGenerateCode
                       (CodeGenerationParams ''update'' (first_image (referenceImages s))
                          None (Some updatedHistory)) s)
      in s1\<lparr>history := updatedHistory, generatedCode := [], updateInstruction := []\<rparr>)"

definition instructionGenerate :: "string \<Rightarrow> App \<Rightarrow> App" where
  "instructionGenerate shot s =
     doGenerateInstruction
       (InstructionGenerationParams (first_image (referenceImages s)) (Some shot)) s"

definition handleTermDialogOpenChange :: "bool \<Rightarrow> App \<Rightarrow> App" where
  "handleTermDialogOpenChange opened s =
     s\<lparr>settings := (settings s)\<lparr>isTermOfServiceAccepted := \<not> opened\<rparr>\<rparr>"

subsection \<open>What can happen to a session\<close>

text \<open>
  The five operations of the session, and the setters the rendered tree hands to its
  inputs directly: the text area (\<open>setUpdateInstruction\<close>), the switch
  (\<open>setShouldIncludeResultImage\<close>), the code editor (\<open>setGeneratedCode\<close>), the settings
  dialog (\<open>setSettings\<close>) and the terms dialog.
\<close>

datatype Operation =
    Create "string list"
  | Update string
  | GenerateInstruction string
  | Stop
  | Reset

fun invoke :: "Env \<Rightarrow> Operation \<Rightarrow> App \<Rightarrow> App" where
  "invoke env (Create imgs) s = doCreate imgs s"
| "invoke env (Update shot) s = doUpdate shot s"
| "invoke env (GenerateInstruction shot) s = instructionGenerate shot s"
| "invoke env Stop s = stop env s"
| "invoke env Reset s = reset s"

datatype Action =
    Call Operation
  | CodeStream StreamEvent
  | InstructionStream StreamEvent
  | TypeInstruction string
  | SwitchResultImage bool
  | EditCode string
  | ChangeSettings Settings
  | TermDialog bool

fun step :: "Env \<Rightarrow> Action \<Rightarrow> App \<Rightarrow> App" where
  "step env (Call op) s = invoke env op s"
| "step env (CodeStream ev) s = codeEvent ev s"
| "step env (InstructionStream ev) s = instructionEvent env ev s"
| "step env (TypeInstruction v) s = s\<lparr>updateInstruction := v\<rparr>"
| "step env (SwitchResultImage b) s = s\<lparr>shouldIncludeResultImage := b\<rparr>"
| "step env (EditCode code) s = s\<lparr>generatedCode := code\<rparr>"
| "step env (ChangeSettings cfg) s = s\<lparr>settings := cfg\<rparr>"
| "step env (TermDialog opened) s = handleTermDialogOpenChange opened s"

text \<open>A run applies the actions from left to right.\<close>

fun run :: "Env \<Rightarrow> Action list \<Rightarrow> App \<Rightarrow> App" where
  "run env [] s = s"
| "run env (a # as) s = run env as (step env a s)"

text \<open>
  The sessions a component can be in: it starts from \<open>initial\<close>, and any action may
  follow any other (no handler checks the phase).
\<close>

inductive reachable :: "Env \<Rightarrow> App \<Rightarrow> bool" for env :: Env where
  start: "reachable env (initial cfg)"
| after: "reachable env s \<Longrightarrow> reachable env (step env a s)"

subsection \<open>The rendered controls\<close>

text \<open>
  The JSX renders the control of an operation under a condition on \<open>appState\<close>, and
  some buttons carry \<open>disabled\<close>: the upload inputs under \<open>INITIAL\<close>; the Stop button
  under \<open>CODING\<close>; Update, Generate Instruction and Reset under \<open>CODE_READY\<close> or
  \<open>INSTRUCTION_GENERATING\<close>, disabled in \<open>INSTRUCTION_GENERATING\<close>.
\<close>

fun offered :: "AppState \<Rightarrow> Operation \<Rightarrow> bool" where
  "offered p (Create imgs) = (p = INITIAL)"
| "offered p Stop =
     ((p = CODING \<or> p = CODE_READY \<or> p = INSTRUCTION_GENERATING) \<and> p = CODING)"
| "offered p (Update shot) =
     ((p = CODING \<or> p = CODE_READY \<or> p = INSTRUCTION_GENERATING)
      \<and> (p = CODE_READY \<or> p = INSTRUCTION_GENERATING)
      \<and> \<not> (p = INSTRUCTION_GENERATING))"
| "offered p (GenerateInstruction shot) =
     ((p = CODING \<or> p = CODE_READY \<or> p = INSTRUCTION_GENERATING)
      \<and> (p = CODE_READY \<or> p = INSTRUCTION_GENERATING)
      \<and> \<not> (p = INSTRUCTION_GENERATING))"
| "offered p Reset =
     ((p = CODING \<or> p = CODE_READY \<or> p = INSTRUCTION_GENERATING)
      \<and> (p = CODE_READY \<or> p = INSTRUCTION_GENERATING)
      \<and> \<not> (p = INSTRUCTION_GENERATING))"

text \<open>An operation asked for through the rendered tree runs only where its control is live.\<close>

definition dispatch :: "Env \<Rightarrow> Operation \<Rightarrow> App \<Rightarrow> App" where
  "dispatch env op s = (if offered (appState s) op then invoke env op s else s)"

subsection \<open>The words of the specification\<close>

text \<open>
  The specification's table of legal operations per phase (its sections 4.3 and 4.5),
  with its phase names read as \<open>GENERATING = CODING\<close>, \<open>READY = CODE_READY\<close> and
  \<open>REFINING = INSTRUCTION_GENERATING\<close>: create requires \<open>INITIAL\<close>, update and
  generate-instruction require \<open>READY\<close>, stop requires \<open>GENERATING\<close> or \<open>REFINING\<close>,
  reset is legal from any state.
\<close>

fun spec_legal :: "AppState \<Rightarrow> Operation \<Rightarrow> bool" where
  "spec_legal p (Create imgs) = (p = INITIAL)"
| "spec_legal p (Update shot) = (p = CODE_READY)"
| "spec_legal p (GenerateInstruction shot) = (p = CODE_READY)"
| "spec_legal p Stop = (p = CODING \<or> p = INSTRUCTION_GENERATING)"
| "spec_legal p Reset = True"

text \<open>
  The specification's History Ledger is a sequence of pairs (prior code, instruction
  applied). The component keeps it flat, two strings per entry; \<open>spec_ledger\<close> reads
  the flat array as the specification's pairs.
\<close>

fun spec_ledger :: "string list \<Rightarrow> (string \<times> string) list" where
  "spec_ledger (c # i # rest) = (c, i) # spec_ledger rest"
| "spec_ledger [c] = []"
| "spec_ledger [] = []"

subsection \<open>Sample sessions\<close>

text \<open>
  Concrete inputs at which the model is evaluated below. The close code and the
  mistake counter are stand-ins for the imported ones (a counter that finds three
  mistakes in every instruction).
\<close>

definition sample_env :: Env where
  "sample_env =
     \<lparr> USER_CLOSE_WEB_SOCKET_CODE = 4333, calculateMistakesNum = (\<lambda>instruction. 3) \<rparr>"

text \<open>One image dropped on a fresh component: the first generation is streaming.\<close>

definition generating_session :: App where
  "generating_session =
     run sample_env [Call (Create [''img1''])] (initial defaultSettings)"

text \<open>The same generation after a status line, the code and the completion.\<close>

definition ready_session :: App where
  "ready_session =
     run sample_env
       [CodeStream (Log ''Generating code...''),
        CodeStream (Token ''<html>A</html>''),
        CodeStream Done]
       generating_session"

text \<open>Then an instruction was generated for it, and the stream completed.\<close>

definition instructed_session :: App where
  "instructed_session =
     run sample_env
       [Call (GenerateInstruction ''shot1''),
        InstructionStream (Replace ''make it blue''),
        InstructionStream Done]
       ready_session"

text \<open>A component that was used once and reset.\<close>

definition reset_session :: App where
  "reset_session = run sample_env [Call Reset] ready_session"

section \<open>Invariants of reachable sessions\<close>

lemmas handler_defs =
  doCreate_def doUpdate_def instructionGenerate_def stop_def reset_def
  doGenerateCode_def doGenerateInstruction_def open_channel_def close_ws_def Let_def

lemmas sample_defs =
  generating_session_def ready_session_def instructed_session_def reset_session_def
  sample_env_def initial_def defaultSettings_def

lemma codeEvent_tokens:
  "generatedCode (fold codeEvent (map Token ts) s) = generatedCode s @ concat ts"
  by (induction ts arbitrary: s) simp_all

lemma reachable_run: "reachable env s \<Longrightarrow> reachable env (run env as s)"
  by (induction as arbitrary: s) (auto intro: reachable.after)

lemma reachable_generating_session: "reachable sample_env generating_session"
  unfolding generating_session_def by (rule reachable_run) (rule reachable.start)

lemma reachable_ready_session: "reachable sample_env ready_session"
  unfolding ready_session_def by (rule reachable_run) (rule reachable_generating_session)

lemma reachable_reset_session: "reachable sample_env reset_session"
  unfolding reset_session_def by (rule reachable_run) (rule reachable_ready_session)

lemma spec_ledger_append:
  "even (length xs) \<Longrightarrow> spec_ledger (xs @ [c, i]) = spec_ledger xs @ [(c, i)]"
  by (induction xs rule: spec_ledger.induct) auto

lemma step_history_even:
  "even (length (history s)) \<Longrightarrow> even (length (history (step env a s)))"
proof (cases a)
  case (Call op)
  assume "even (length (history s))"
  then show ?thesis using Call
    by (cases op)
       (simp_all add: doCreate_def doUpdate_def instructionGenerate_def stop_def reset_def
          doGenerateCode_def doGenerateInstruction_def open_channel_def Let_def)
next
  case (CodeStream ev)
  assume "even (length (history s))"
  then show ?thesis using CodeStream by (cases ev) simp_all
next
  case (InstructionStream ev)
  assume "even (length (history s))"
  then show ?thesis using InstructionStream by (cases ev) simp_all
qed (simp_all add: handleTermDialogOpenChange_def)

lemma reachable_history_even:
  "reachable env s \<Longrightarrow> even (length (history s))"
  by (induction rule: reachable.induct) (simp_all add: initial_def step_history_even)

lemma step_initial_no_images:
  assumes "appState s = INITIAL \<longrightarrow> referenceImages s = []"
  shows "appState (step env a s) = INITIAL \<longrightarrow> referenceImages (step env a s) = []"
proof (cases a)
  case (Call op)
  then show ?thesis using assms
    by (cases op)
       (simp_all add: doCreate_def doUpdate_def instructionGenerate_def stop_def reset_def
          doGenerateCode_def doGenerateInstruction_def open_channel_def Let_def)
next
  case (CodeStream ev)
  then show ?thesis using assms by (cases ev) simp_all
next
  case (InstructionStream ev)
  then show ?thesis using assms by (cases ev) simp_all
qed (use assms in \<open>simp_all add: handleTermDialogOpenChange_def\<close>)

lemma reachable_initial_no_images:
  "reachable env s \<Longrightarrow> appState s = INITIAL \<Longrightarrow> referenceImages s = []"
proof (induction rule: reachable.induct)
  case (start cfg)
  show ?case by (simp add: initial_def)
next
  case (after s a)
  from after.IH have "appState s = INITIAL \<longrightarrow> referenceImages s = []" by blast
  from step_initial_no_images [OF this] after.prems show ?case by blast
qed

section \<open>The claims\<close>

subsection \<open>C1: reset\<close>

text \<open>
  C1. From any phase, \<open>reset()\<close> returns every Session field to its initial value:
  phase \<open>INITIAL\<close>, generated code, reference images, console and history empty, the
  pending instruction empty and the mistake count 0.

  \<open>reset\<close> calls five setters and has none for \<open>updateInstruction\<close> and
  \<open>mistakesNum\<close>: both survive it. At the sample session that has a generated
  instruction with three mistakes found, the phase and the four buffers are back at their
  initial values and the instruction and the count are not.
\<close>

theorem reset_keeps_instruction_and_mistakes:
  "appState (reset instructed_session) = INITIAL
   \<and> generatedCode (reset instructed_session) = []
   \<and> referenceImages (reset instructed_session) = []
   \<and> executionConsole (reset instructed_session) = []
   \<and> history (reset instructed_session) = []
   \<and> updateInstruction (reset instructed_session) = ''make it blue''
   \<and> mistakesNum (reset instructed_session) = 3
   \<and> updateInstruction (reset s) = updateInstruction s
   \<and> mistakesNum (reset s) = mistakesNum s"
  by (simp add: sample_defs handler_defs)

subsection \<open>C2: update appends to the history\<close>

text \<open>
  C2. For a session in \<open>READY\<close>, \<open>update()\<close> makes the History Ledger one entry
  longer, the new entry is the pair (generated code, pending instruction) as they were
  before the update, and the two fields are cleared after the entry was taken.

  The component keeps the ledger flat, so the array grows by two strings, and read as
  pairs it grows by the one entry. The same extended array goes out in the request.
  This holds in every reachable session, whatever its phase.
\<close>

theorem doUpdate_appends_history_entry:
  assumes "reachable env s"
  shows "spec_ledger (history (doUpdate shot s))
           = spec_ledger (history s) @ [(generatedCode s, updateInstruction s)]
         \<and> length (spec_ledger (history (doUpdate shot s)))
           = Suc (length (spec_ledger (history s)))
         \<and> history (doUpdate shot s) = history s @ [generatedCode s, updateInstruction s]
         \<and> generatedCode (doUpdate shot s) = []
         \<and> updateInstruction (doUpdate shot s) = []
         \<and> appState (doUpdate shot s) = CODING
         \<and> map_option (\<lambda>w. history_param (params (payload w))) (wsRef (doUpdate shot s))
           = Some (Some (history s @ [generatedCode s, updateInstruction s]))"
proof -
  have grown: "history (doUpdate shot s) = history s @ [generatedCode s, updateInstruction s]"
    by (simp add: handler_defs)
  have "even (length (history s))"
    using assms by (rule reachable_history_even)
  then have "spec_ledger (history s @ [generatedCode s, updateInstruction s])
               = spec_ledger (history s) @ [(generatedCode s, updateInstruction s)]"
    by (rule spec_ledger_append)
  with grown show ?thesis
    by (simp add: handler_defs)
qed

theorem doUpdate_appends_history_entry_witness:
  "reachable sample_env ready_session
   \<and> appState ready_session = CODE_READY
   \<and> spec_ledger (history ready_session) = []
   \<and> spec_ledger (history (doUpdate [] ready_session)) = [(''<html>A</html>'', [])]
   \<and> generatedCode (doUpdate [] ready_session) = []
   \<and> updateInstruction (doUpdate [] ready_session) = []
   \<and> appState (doUpdate [] ready_session) = CODING"
proof -
  have r: "reachable sample_env ready_session"
    by (rule reachable_ready_session)
  have v: "history ready_session = [] \<and> generatedCode ready_session = ''<html>A</html>''
           \<and> updateInstruction ready_session = [] \<and> appState ready_session = CODE_READY"
    by (simp add: sample_defs handler_defs)
  show ?thesis
    using r v doUpdate_appends_history_entry [OF r, of "[]"] by simp
qed

subsection \<open>C3: operations outside their phase\<close>

text \<open>
  C3. An operation that is not legal in the current phase leaves every Session field,
  the phase included, unchanged.

  The handlers do not look at the phase. On a fresh component, where neither is legal,
  \<open>stop()\<close> moves the phase to \<open>CODE_READY\<close> and \<open>update()\<close> moves it to \<open>CODING\<close>,
  opens a channel and writes the history.
\<close>

theorem illegal_operation_changes_session:
  "\<not> spec_legal (appState (initial defaultSettings)) Stop
   \<and> appState (invoke sample_env Stop (initial defaultSettings)) = CODE_READY
   \<and> invoke sample_env Stop (initial defaultSettings) \<noteq> initial defaultSettings
   \<and> \<not> spec_legal (appState (initial defaultSettings)) (Update [])
   \<and> appState (invoke sample_env (Update []) (initial defaultSettings)) = CODING
   \<and> history (invoke sample_env (Update []) (initial defaultSettings)) = [[], []]"
proof -
  have "appState (invoke sample_env Stop (initial defaultSettings)) = CODE_READY"
    by (simp add: handler_defs initial_def)
  moreover have "appState (initial defaultSettings) = INITIAL"
    by (simp add: initial_def)
  ultimately have "invoke sample_env Stop (initial defaultSettings) \<noteq> initial defaultSettings"
    by (metis AppState.distinct(3))
  then show ?thesis
    by (simp add: handler_defs initial_def)
qed

text \<open>
  C3, as the component has it. The guard is in the rendered tree: an operation that is
  not legal in the current phase has no live control in that phase, so asked for
  through the rendered controls it is not run and the session stays as it is.
\<close>

theorem illegal_operation_not_offered:
  assumes "\<not> spec_legal (appState s) op"
  shows "\<not> offered (appState s) op \<and> dispatch env op s = s"
  using assms by (cases op) (auto simp: dispatch_def)

theorem illegal_operation_not_offered_witness:
  "\<not> spec_legal (appState (initial defaultSettings)) Stop
   \<and> \<not> offered (appState (initial defaultSettings)) Stop
   \<and> dispatch sample_env Stop (initial defaultSettings) = initial defaultSettings"
proof -
  have h: "\<not> spec_legal (appState (initial defaultSettings)) Stop"
    by (simp add: initial_def)
  show ?thesis
    using h illegal_operation_not_offered [OF h, of sample_env] by simp
qed

subsection \<open>C4: reset and the open handle\<close>

text \<open>
  C4. When \<open>reset()\<close> is called while the session's WebSocket is open, it closes the
  handle before it clears the fields.

  \<open>reset\<close> does not read \<open>wsRef\<close>. In the sample session whose first generation is
  streaming, the handle is open before \<open>reset()\<close> and open after it.
\<close>

theorem reset_leaves_handle_open:
  "appState generating_session = CODING
   \<and> map_option readyState (wsRef generating_session) = Some OPEN
   \<and> map_option readyState (wsRef (reset generating_session)) = Some OPEN"
  by (simp add: sample_defs handler_defs)

text \<open>
  C4, as the component has it. \<open>reset()\<close> does not cancel the handle: in every
  session it leaves \<open>wsRef\<close> exactly as it finds it, open or closed, and it sets the
  phase to \<open>INITIAL\<close> and empties the generated code, the reference images, the
  console and the history. The Reset button is live in \<open>CODE_READY\<close> only: it is not
  rendered in \<open>INITIAL\<close> and \<open>CODING\<close> and it is disabled in
  \<open>INSTRUCTION_GENERATING\<close>.
\<close>

theorem reset_does_not_touch_handle:
  "wsRef (reset s) = wsRef s
   \<and> appState (reset s) = INITIAL
   \<and> generatedCode (reset s) = []
   \<and> referenceImages (reset s) = []
   \<and> executionConsole (reset s) = []
   \<and> history (reset s) = []
   \<and> offered p Reset = (p = CODE_READY)"
  by (cases p) (simp_all add: reset_def)

subsection \<open>C5: the console\<close>

text \<open>
  C5. The console is append-only within a session: a Log event appends one line, and
  nothing but \<open>reset()\<close> removes lines; starting a generation with \<open>create()\<close> or
  \<open>update()\<close> keeps the lines that are there.

  \<open>doGenerateCode\<close> starts with \<open>setExecutionConsole([])\<close>. The sample session that
  finished its first generation has one status line, and \<open>update()\<close> empties the
  console.
\<close>

theorem update_clears_console:
  "executionConsole ready_session = [''Generating code...'']
   \<and> executionConsole (doUpdate [] ready_session) = []"
  by (simp add: sample_defs handler_defs)

text \<open>
  C5, as the component has it. The console is append-only within one code generation:
  a Log event of either stream appends its line at the end; the other stream events,
  \<open>stop()\<close>, generate-instruction, \<open>create\<close> with no image and the user's edits
  leave the console as it is; \<open>reset()\<close> and the start of every code generation
  (\<open>create\<close> with an image, \<open>update\<close>) empty it.
\<close>

theorem console_append_only_within_generation:
  "executionConsole (codeEvent (Log line) s) = executionConsole s @ [line]
   \<and> executionConsole (instructionEvent env (Log line) s) = executionConsole s @ [line]
   \<and> executionConsole (codeEvent (Token t) s) = executionConsole s
   \<and> executionConsole (codeEvent (Replace c) s) = executionConsole s
   \<and> executionConsole (codeEvent Done s) = executionConsole s
   \<and> executionConsole (instructionEvent env (Token t) s) = executionConsole s
   \<and> executionConsole (instructionEvent env (Replace c) s) = executionConsole s
   \<and> executionConsole (instructionEvent env Done s) = executionConsole s
   \<and> executionConsole (stop env s) = executionConsole s
   \<and> executionConsole (instructionGenerate shot s) = executionConsole s
   \<and> executionConsole (doCreate [] s) = executionConsole s
   \<and> executionConsole (step env (TypeInstruction v) s) = executionConsole s
   \<and> executionConsole (step env (SwitchResultImage b) s) = executionConsole s
   \<and> executionConsole (step env (EditCode c) s) = executionConsole s
   \<and> executionConsole (step env (ChangeSettings cfg) s) = executionConsole s
   \<and> executionConsole (step env (TermDialog b) s) = executionConsole s
   \<and> executionConsole (doCreate (x # xs) s) = []
   \<and> executionConsole (doUpdate shot s) = []
   \<and> executionConsole (reset s) = []"
  by (simp add: handler_defs handleTermDialogOpenChange_def)

subsection \<open>C6: stop twice\<close>

text \<open>
  C6. \<open>stop()\<close> called twice in succession leaves the session as one call does: the
  second call, on a handle that is closed already, changes no field, and the phase
  stays \<open>CODE_READY\<close>.
\<close>

theorem stop_idempotent:
  "stop env (stop env s) = stop env s \<and> appState (stop env (stop env s)) = CODE_READY"
  by (cases "wsRef s") (auto simp: stop_def close_ws_def split: ReadyState.splits)

subsection \<open>C7: create without an image\<close>

text \<open>
  C7. \<open>create\<close> with an empty list of reference images is a no-op: the session stays
  in \<open>INITIAL\<close>, no request goes out and the session is unchanged.

  \<open>doCreate\<close> stores the empty list before it tests its length; in \<open>INITIAL\<close> the
  stored list is empty already, in every session the component can reach.
\<close>

theorem doCreate_no_images_noop:
  assumes "reachable env s" and "appState s = INITIAL"
  shows "doCreate [] s = s"
proof -
  have "referenceImages s = []"
    using assms by (rule reachable_initial_no_images)
  then show ?thesis
    by (simp add: doCreate_def)
qed

theorem doCreate_no_images_noop_witness:
  "reachable sample_env reset_session
   \<and> appState reset_session = INITIAL
   \<and> doCreate [] reset_session = reset_session
   \<and> appState (doCreate [] reset_session) = INITIAL
   \<and> wsRef (doCreate [] reset_session) = wsRef reset_session"
proof -
  have r: "reachable sample_env reset_session"
    by (rule reachable_reset_session)
  have p: "appState reset_session = INITIAL"
    by (simp add: sample_defs handler_defs)
  show ?thesis
    using r p doCreate_no_images_noop [OF r p] by simp
qed

subsection \<open>C8: tokens and completion\<close>

text \<open>
  C8. Tokens are appended to the generated code in the order they arrive, and Done
  changes the phase only. From \<open>INITIAL\<close>, \<open>create(["img1"])\<close> gives phase \<open>CODING\<close>
  with empty code; the tokens \<open><ht\<close> and \<open>ml>\<close> give the code \<open><html>\<close>; Done then
  gives \<open>CODE_READY\<close> with the code unchanged.
\<close>

theorem tokens_concatenate_then_done:
  "appState (doCreate [''img1''] (initial cfg)) = CODING
   \<and> generatedCode (doCreate [''img1''] (initial cfg)) = []
   \<and> generatedCode
       (codeEvent (Token ''ml>'') (codeEvent (Token ''<ht'') (doCreate [''img1''] (initial cfg))))
     = ''<html>''
   \<and> appState
       (codeEvent Done
         (codeEvent (Token ''ml>'') (codeEvent (Token ''<ht'') (doCreate [''img1''] (initial cfg)))))
     = CODE_READY
   \<and> generatedCode
       (codeEvent Done
         (codeEvent (Token ''ml>'') (codeEvent (Token ''<ht'') (doCreate [''img1''] (initial cfg)))))
     = ''<html>''
   \<and> generatedCode (fold codeEvent (map Token ts) s) = generatedCode s @ concat ts
   \<and> codeEvent Done s = s\<lparr>appState := CODE_READY\<rparr>"
  by (simp add: handler_defs initial_def codeEvent_tokens)

subsection \<open>C9: stop keeps the partial code\<close>

text \<open>
  C9. In \<open>CODING\<close> with any partial code (say \<open><htm\<close>), \<open>stop()\<close> moves the phase to
  \<open>CODE_READY\<close> and leaves the code as it was, and the history, the reference images,
  the console and the pending instruction with it.
\<close>

theorem stop_keeps_partial_code:
  "appState (stop env s) = CODE_READY
   \<and> generatedCode (stop env s) = generatedCode s
   \<and> history (stop env s) = history s
   \<and> referenceImages (stop env s) = referenceImages s
   \<and> executionConsole (stop env s) = executionConsole s
   \<and> updateInstruction (stop env s) = updateInstruction s
   \<and> appState (stop sample_env (codeEvent (Token ''<htm'') generating_session)) = CODE_READY
   \<and> generatedCode (codeEvent (Token ''<htm'') generating_session) = ''<htm''
   \<and> generatedCode (stop sample_env (codeEvent (Token ''<htm'') generating_session)) = ''<htm''"
  by (simp add: sample_defs handler_defs)

subsection \<open>C10: the image of a request\<close>

text \<open>
  C10. Every request the session sends (create, update, generate-instruction) carries
  the first reference image as its image, and the images after the first have no
  influence on the request.
\<close>

theorem requests_use_first_image_only:
  "map_option (\<lambda>w. image_param (params (payload w))) (wsRef (doCreate (x # xs) s)) = Some (Some x)
   \<and> map_option (\<lambda>w. image_param (params (payload w))) (wsRef (doUpdate shot s))
     = Some (first_image (referenceImages s))
   \<and> map_option (\<lambda>w. image_param (params (payload w))) (wsRef (instructionGenerate shot s))
     = Some (first_image (referenceImages s))
   \<and> wsRef (doCreate (x # xs) s) = wsRef (doCreate (x # ys) s)
   \<and> wsRef (doUpdate shot (s\<lparr>referenceImages := x # xs\<rparr>))
     = wsRef (doUpdate shot (s\<lparr>referenceImages := x # ys\<rparr>))
   \<and> wsRef (instructionGenerate shot (s\<lparr>referenceImages := x # xs\<rparr>))
     = wsRef (instructionGenerate shot (s\<lparr>referenceImages := x # ys\<rparr>))"
  by (simp add: handler_defs)

end
